theory Spec2Isabelle
  imports Complex_Main
begin

section \<open>Values, errors and numbers of the host language\<close>

text \<open>
  An upstream item is an arbitrary JavaScript value. The operator only ever asks one
  question about it (\<^verbatim>\<open>isNumber(x)\<close> in \<^verbatim>\<open>identity\<close>), so an item is either a
  number, taken to be finite, or some other value.
\<close>

datatype 'a jsval = JNumber real | JOther 'a

text \<open>
  What a \<^verbatim>\<open>catch (err)\<close> can receive: the \<^verbatim>\<open>TypeError\<close> raised by calling
  \<^verbatim>\<open>.call\<close> on something that is not a function, or any value thrown by user code.
\<close>

datatype 'x jserr = TypeError | Thrown 'x

text \<open>
  Numbers are exact reals: IEEE-754 rounding and overflow are not modelled. The one
  place where the code leaves the finite numbers is the division by a zero sum of
  weights, which in JavaScript yields \<^verbatim>\<open>NaN\<close> or an infinity and never raises.
  \<open>NotFinite\<close> stands for these three results; every arithmetic operation with a
  non-finite operand, used with finite other operands as the update rule does, stays
  non-finite.
\<close>

datatype number = Num real | NotFinite

fun js_add :: "number \<Rightarrow> number \<Rightarrow> number" where
  "js_add (Num a) (Num b) = Num (a + b)"
| "js_add _ _ = NotFinite"

fun js_sub :: "number \<Rightarrow> number \<Rightarrow> number" where
  "js_sub (Num a) (Num b) = Num (a - b)"
| "js_sub _ _ = NotFinite"

fun js_mul :: "number \<Rightarrow> number \<Rightarrow> number" where
  "js_mul (Num a) (Num b) = Num (a * b)"
| "js_mul _ _ = NotFinite"

definition js_div :: "real \<Rightarrow> real \<Rightarrow> number" where
  "js_div a b = (if b = 0 then NotFinite else Num (a / b))"

section \<open>The subscriber protocol\<close>

text \<open>
  A projection is called as \<^verbatim>\<open>f.call(thisArg, value, index)\<close>. It returns a finite
  number or throws. The receiver is \<open>None\<close> when the projection is bound to the
  subscriber itself (\<^verbatim>\<open>thisArg || this\<close> with a falsy \<^verbatim>\<open>thisArg\<close>); projections
  are taken not to write to the subscriber's fields.
\<close>

type_synonym ('a, 'c, 'x) projection = "'c option \<Rightarrow> 'a jsval \<Rightarrow> nat \<Rightarrow> 'x jserr + real"

datatype status = ACTIVE | COMPLETED | ERRORED | CANCELLED

datatype 'x notification = Next number | Error "'x jserr" | Complete

text \<open>
  Modelled from the spec: the base class \<^verbatim>\<open>Subscriber\<close> (\<^verbatim>\<open>../Subscriber\<close> is
  imported by \<^verbatim>\<open>average.ts\<close> and is not among the sources). Its state is the state
  machine of section 4.1 (\<open>ACTIVE\<close>, then one of the terminal states, with no
  transition out of a terminal state), the downstream subscriber \<open>destination\<close>,
  observed through the notifications delivered to it in order, and whether the
  subscription to the upstream source is still held.
\<close>

record 'x Subscriber =
  status :: status
  destination :: "'x notification list"
  sourceSubscribed :: bool

text \<open>
  The class \<^verbatim>\<open>AverageSubscriber extends Subscriber\<close>, with the fields of the source.
  \<open>invoked\<close> is not a field of the source: it counts the calls made to the two
  projections, so that statements about which calls happen can be written down.
\<close>

record ('a, 'c, 'x) AverageSubscriber = "'x Subscriber" +
  count :: nat
  "value" :: number
  sumWeights :: real
  thisArg :: "'c option"
  isRunning :: bool
  project :: "('a, 'c, 'x) projection option"
  projectWeight :: "('a, 'c, 'x) projection option"
  invoked :: nat

text \<open>
  Modelled from the spec: \<^verbatim>\<open>this.destination.next(v)\<close>, a method of the absent
  \<^verbatim>\<open>Subscriber\<close>. The value is handed downstream; nothing is delivered once a
  terminal state is reached (section 4.1). The call is taken not to throw.
\<close>

definition destination_next ::
    "number \<Rightarrow> ('x, 'm) Subscriber_scheme \<Rightarrow> ('x, 'm) Subscriber_scheme" where
  "destination_next v s =
     (if status s = ACTIVE then s\<lparr>destination := destination s @ [Next v]\<rparr> else s)"

text \<open>
  Modelled from the spec: \<^verbatim>\<open>this.destination.error(err)\<close>, a method of the absent
  \<^verbatim>\<open>Subscriber\<close>. The error is handed downstream once and terminates the
  subscription (sections 4.1 and 7: a failure "is surfaced to the subscriber exactly
  once and terminates the subscription"), which releases the source.
\<close>

definition destination_error ::
    "'x jserr \<Rightarrow> ('x, 'm) Subscriber_scheme \<Rightarrow> ('x, 'm) Subscriber_scheme" where
  "destination_error err s =
     (if status s = ACTIVE
      then s\<lparr>destination := destination s @ [Error err], status := ERRORED,
             sourceSubscribed := False\<rparr>
      else s)"

text \<open>
  Modelled from the spec: \<^verbatim>\<open>this.destination.complete()\<close>, a method of the absent
  \<^verbatim>\<open>Subscriber\<close>. The completion is handed downstream once and ends the
  subscription (section 4.1, completion contract), which releases the source.
\<close>

definition destination_complete ::
    "('x, 'm) Subscriber_scheme \<Rightarrow> ('x, 'm) Subscriber_scheme" where
  "destination_complete s =
     (if status s = ACTIVE
      then s\<lparr>destination := destination s @ [Complete], status := COMPLETED,
             sourceSubscribed := False\<rparr>
      else s)"

section \<open>AverageSubscriber\<close>

text \<open>
  The constructor (lines 116-123). The destination has received nothing yet;
  \<^verbatim>\<open>this.thisArg = thisArg || this\<close> keeps a given receiver and reads \<open>None\<close> as the
  subscriber itself; \<^verbatim>\<open>this.isRunning = true\<close> is unconditional.
\<close>

definition AverageSubscriber_new ::
    "('a, 'c, 'x) projection option \<Rightarrow> ('a, 'c, 'x) projection option \<Rightarrow> 'c option
       \<Rightarrow> ('a, 'c, 'x) AverageSubscriber" where
  "AverageSubscriber_new project' projectWeight' thisArg' =
     \<lparr>status = ACTIVE, destination = [], sourceSubscribed = True,
      count = 0, value = Num 0, sumWeights = 0, thisArg = thisArg', isRunning = True,
      project = project', projectWeight = projectWeight', invoked = 0\<rparr>"

text \<open>
  \<^verbatim>\<open>f.call(this.thisArg, value, this.count)\<close>: a \<^verbatim>\<open>TypeError\<close> when \<open>f\<close> is not a
  function, the projection's own result or exception otherwise.
\<close>

definition invoke ::
    "('a, 'c, 'x) projection option \<Rightarrow> 'a jsval \<Rightarrow> ('a, 'c, 'x) AverageSubscriber
       \<Rightarrow> ('x jserr + real) \<times> ('a, 'c, 'x) AverageSubscriber" where
  "invoke f x s =
     (case f of
        None \<Rightarrow> (Inl TypeError, s)
      | Some g \<Rightarrow> (g (thisArg s) x (count s), s\<lparr>invoked := Suc (invoked s)\<rparr>))"

text \<open>
  \<^verbatim>\<open>_next\<close> (lines 133-151). An exception of either projection leaves the
  \<^verbatim>\<open>try\<close> block before any assignment and is handed to \<^verbatim>\<open>destination.error\<close>;
  the method itself returns normally.
\<close>

definition AverageSubscriber_next ::
    "'a jsval \<Rightarrow> ('a, 'c, 'x) AverageSubscriber \<Rightarrow> ('a, 'c, 'x) AverageSubscriber" where
  "AverageSubscriber_next x s =
     (case invoke (project s) x s of
        (Inl err, s1) \<Rightarrow> destination_error err s1
      | (Inr v, s1) \<Rightarrow>
          (case invoke (projectWeight s1) x s1 of
             (Inl err, s2) \<Rightarrow> destination_error err s2
           | (Inr w, s2) \<Rightarrow>
               (let s3 = s2\<lparr>sumWeights := sumWeights s2 + w\<rparr>;
                    s4 = s3\<lparr>value := js_add (value s3)
                            (js_mul (js_div w (sumWeights s3)) (js_sub (Num v) (value s3)))\<rparr>;
                    s5 = s4\<lparr>count := Suc (count s4)\<rparr>
                in if isRunning s5 then destination_next (value s5) s5 else s5)))"

text \<open>\<^verbatim>\<open>_complete\<close> (lines 153-158).\<close>

definition AverageSubscriber_complete ::
    "('a, 'c, 'x) AverageSubscriber \<Rightarrow> ('a, 'c, 'x) AverageSubscriber" where
  "AverageSubscriber_complete s =
     destination_complete (if \<not> isRunning s then destination_next (value s) s else s)"

text \<open>
  Modelled from the spec: the public method \<^verbatim>\<open>next\<close> that \<^verbatim>\<open>AverageSubscriber\<close>
  inherits from the absent \<^verbatim>\<open>Subscriber\<close>. It acts only in state \<open>ACTIVE\<close>
  (section 4.1: no transition out of a terminal state) and dispatches to the
  overriding \<^verbatim>\<open>_next\<close>.
\<close>

definition Subscriber_next ::
    "'a jsval \<Rightarrow> ('a, 'c, 'x) AverageSubscriber \<Rightarrow> ('a, 'c, 'x) AverageSubscriber" where
  "Subscriber_next x s = (if status s = ACTIVE then AverageSubscriber_next x s else s)"

text \<open>
  Modelled from the spec: the inherited public method \<^verbatim>\<open>error\<close>.
  \<^verbatim>\<open>AverageSubscriber\<close> does not override \<^verbatim>\<open>_error\<close>; an upstream error is
  forwarded downstream unchanged, with nothing flushed before it (section 4.1, error
  contract), and only in state \<open>ACTIVE\<close>.
\<close>

definition Subscriber_error ::
    "'x jserr \<Rightarrow> ('a, 'c, 'x) AverageSubscriber \<Rightarrow> ('a, 'c, 'x) AverageSubscriber" where
  "Subscriber_error err s = (if status s = ACTIVE then destination_error err s else s)"

text \<open>
  Modelled from the spec: the inherited public method \<^verbatim>\<open>complete\<close>. It acts only
  in state \<open>ACTIVE\<close> and dispatches to the overriding \<^verbatim>\<open>_complete\<close>.
\<close>

definition Subscriber_complete ::
    "('a, 'c, 'x) AverageSubscriber \<Rightarrow> ('a, 'c, 'x) AverageSubscriber" where
  "Subscriber_complete s = (if status s = ACTIVE then AverageSubscriber_complete s else s)"

text \<open>
  Modelled from the spec: the inherited method \<^verbatim>\<open>unsubscribe\<close>, called by the
  downstream consumer. It cancels the subscription and releases the source (section
  4.1, cancellation contract); issued again, or after a terminal state, it has no
  effect (section 5).
\<close>

definition Subscriber_unsubscribe ::
    "('a, 'c, 'x) AverageSubscriber \<Rightarrow> ('a, 'c, 'x) AverageSubscriber" where
  "Subscriber_unsubscribe s =
     (if status s = ACTIVE then s\<lparr>status := CANCELLED, sourceSubscribed := False\<rparr> else s)"

section \<open>Sources, the operator and its construction\<close>

text \<open>
  A source is observed as the finite sequence of calls it makes on its subscriber,
  interleaved with the moment, if any, at which the downstream consumer unsubscribes.
\<close>

datatype ('a, 'x) event = OnNext "'a jsval" | OnError "'x jserr" | OnComplete | Unsubscribe

fun deliver ::
    "('a, 'x) event \<Rightarrow> ('a, 'c, 'x) AverageSubscriber \<Rightarrow> ('a, 'c, 'x) AverageSubscriber" where
  "deliver (OnNext x) s = Subscriber_next x s"
| "deliver (OnError err) s = Subscriber_error err s"
| "deliver OnComplete s = Subscriber_complete s"
| "deliver Unsubscribe s = Subscriber_unsubscribe s"

fun subscribe ::
    "('a, 'x) event list \<Rightarrow> ('a, 'c, 'x) AverageSubscriber \<Rightarrow> ('a, 'c, 'x) AverageSubscriber" where
  "subscribe [] s = s"
| "subscribe (e # es) s = subscribe es (deliver e s)"

text \<open>
  The class \<^verbatim>\<open>AverageOperator\<close> (lines 70-79) and its method \<^verbatim>\<open>call\<close>, which
  subscribes a new \<^verbatim>\<open>AverageSubscriber\<close> to the source. The downstream subscriber
  it is given is the destination of the new subscriber.
\<close>

datatype ('a, 'c, 'x) AverageOperator =
  AverageOperator "('a, 'c, 'x) projection option" "('a, 'c, 'x) projection option" "'c option"

fun call ::
    "('a, 'c, 'x) AverageOperator \<Rightarrow> ('a, 'x) event list \<Rightarrow> ('a, 'c, 'x) AverageSubscriber" where
  "call (AverageOperator project' projectWeight' thisArg') source =
     subscribe source (AverageSubscriber_new project' projectWeight' thisArg')"

text \<open>
  \<^verbatim>\<open>source.lift(operator)\<close>, observed at a subscription: the operator is called with
  the source.
\<close>

definition lift ::
    "('a, 'x) event list \<Rightarrow> ('a, 'c, 'x) AverageOperator \<Rightarrow> ('a, 'c, 'x) AverageSubscriber" where
  "lift source operator = call operator source"

text \<open>The two default projections declared inside \<^verbatim>\<open>average\<close> (lines 49-55).\<close>

definition identity :: "('a, 'c, 'x) projection" where
  "identity this x index = Inr (case x of JNumber r \<Rightarrow> r | JOther _ \<Rightarrow> 0)"

definition one_w :: "('a, 'c, 'x) projection" where
  "one_w this x index = Inr 1"

text \<open>
  \<^verbatim>\<open>typeof f !== 'function'\<close> is \<open>\<not> is_function f\<close>: an argument that was not
  supplied is \<open>None\<close>.
\<close>

definition is_function :: "('a, 'c, 'x) projection option \<Rightarrow> bool" where
  "is_function f = (case f of None \<Rightarrow> False | Some _ \<Rightarrow> True)"

text \<open>
  \<^verbatim>\<open>averageOperation\<close> (lines 57-67), with the three variables it closes over, and
  \<^verbatim>\<open>average\<close>, which returns it.
\<close>

definition averageOperation ::
    "('a, 'c, 'x) projection option \<Rightarrow> ('a, 'c, 'x) projection option \<Rightarrow> 'c option
       \<Rightarrow> ('a, 'x) event list \<Rightarrow> ('a, 'c, 'x) AverageSubscriber" where
  "averageOperation project' projectWeight' thisArg' source =
     (if \<not> is_function project' \<and> \<not> is_function projectWeight'
      then lift source (AverageOperator (Some identity) (Some one_w) thisArg')
      else if \<not> is_function projectWeight'
      then lift source (AverageOperator project' (Some one_w) thisArg')
      else lift source (AverageOperator project' projectWeight' thisArg'))"

definition average ::
    "('a, 'c, 'x) projection option \<Rightarrow> ('a, 'c, 'x) projection option \<Rightarrow> 'c option
       \<Rightarrow> ('a, 'x) event list \<Rightarrow> ('a, 'c, 'x) AverageSubscriber" where
  "average project' projectWeight' thisArg' = averageOperation project' projectWeight' thisArg'"

section \<open>The update rule as a function of the projected pairs\<close>

text \<open>
  The arithmetic of lines 140-141 on a pair \<open>(sumWeights, value)\<close> and a projected pair
  \<open>(v, w)\<close>, and its iteration from the initial fields \<open>(0, 0)\<close>. The lemma
  \<open>process_items\<close> below proves that this is what the subscriber computes.
\<close>

definition step_avg :: "real \<times> number \<Rightarrow> real \<times> real \<Rightarrow> real \<times> number" where
  "step_avg acc p =
     (fst acc + snd p,
      js_add (snd acc) (js_mul (js_div (snd p) (fst acc + snd p)) (js_sub (Num (fst p)) (snd acc))))"

definition run_avg :: "(real \<times> real) list \<Rightarrow> real \<times> number" where
  "run_avg ps = foldl step_avg (0, Num 0) ps"

text \<open>
  A subscriber as the constructor builds it for two given projections, with the emit
  flag set to \<open>r\<close>; the constructor itself always gives \<open>r = True\<close>.
\<close>

definition fresh ::
    "('a, 'c, 'x) projection \<Rightarrow> ('a, 'c, 'x) projection \<Rightarrow> 'c option \<Rightarrow> bool
       \<Rightarrow> ('a, 'c, 'x) AverageSubscriber" where
  "fresh p q t r = (AverageSubscriber_new (Some p) (Some q) t)\<lparr>isRunning := r\<rparr>"

text \<open>The values handed downstream while the pairs \<open>ps\<close> are processed.\<close>

definition outputs :: "bool \<Rightarrow> (real \<times> real) list \<Rightarrow> 'x notification list" where
  "outputs r ps =
     (if r then map (\<lambda>k. Next (snd (run_avg (take k ps)))) [1..<Suc (length ps)] else [])"

section \<open>The weighted mean, as the specification words it\<close>





section \<open>Single steps and runs of items\<close>

lemma subscribe_append: "subscribe (es @ fs) s = subscribe fs (subscribe es s)"
  by (induction es arbitrary: s) simp_all

lemma deliver_inactive: "status s \<noteq> ACTIVE \<Longrightarrow> deliver e s = s"
  by (cases e)
     (simp_all add: Subscriber_next_def Subscriber_error_def Subscriber_complete_def
        Subscriber_unsubscribe_def)

lemma subscribe_inactive: "status s \<noteq> ACTIVE \<Longrightarrow> subscribe es s = s"
  by (induction es) (simp_all add: deliver_inactive)

lemma run_avg_Nil: "run_avg [] = (0, Num 0)"
  by (simp add: run_avg_def)

lemma run_avg_snoc: "run_avg (ps @ [p]) = step_avg (run_avg ps) p"
  by (simp add: run_avg_def)

lemma outputs_snoc:
  "outputs r (ps @ [p]) = outputs r ps @ (if r then [Next (snd (run_avg (ps @ [p])))] else [])"
proof (cases r)
  case True
  have "map (\<lambda>k. Next (snd (run_avg (take k (ps @ [p])))) :: 'x notification) [1..<Suc (length ps)]
      = map (\<lambda>k. Next (snd (run_avg (take k ps)))) [1..<Suc (length ps)]"
    by (rule map_cong) auto
  with True show ?thesis
    by (simp add: outputs_def)
next
  case False
  then show ?thesis
    by (simp add: outputs_def)
qed

lemma next_ok:
  assumes "p t x n = Inr v" "q t x n = Inr w"
  shows "Subscriber_next x
           \<lparr>status = ACTIVE, destination = d, sourceSubscribed = True,
            count = n, value = a, sumWeights = S, thisArg = t, isRunning = r,
            project = Some p, projectWeight = Some q, invoked = k\<rparr>
         = \<lparr>status = ACTIVE, destination = d @ (if r then [Next (snd (step_avg (S, a) (v, w)))] else []),
            sourceSubscribed = True,
            count = Suc n, value = snd (step_avg (S, a) (v, w)), sumWeights = S + w, thisArg = t,
            isRunning = r, project = Some p, projectWeight = Some q, invoked = Suc (Suc k)\<rparr>"
  using assms
  by (simp add: Subscriber_next_def AverageSubscriber_next_def invoke_def destination_next_def
      step_avg_def Let_def)

lemma process_items:
  assumes "length ps = length xs"
    and "\<forall>i<length xs. p t (xs ! i) i = Inr (fst (ps ! i)) \<and> q t (xs ! i) i = Inr (snd (ps ! i))"
  shows "subscribe (map OnNext xs) (fresh p q t r)
         = \<lparr>status = ACTIVE, destination = outputs r ps, sourceSubscribed = True,
            count = length xs, value = snd (run_avg ps), sumWeights = fst (run_avg ps),
            thisArg = t, isRunning = r, project = Some p, projectWeight = Some q,
            invoked = 2 * length xs\<rparr>"
  using assms
proof (induction xs arbitrary: ps rule: rev_induct)
  case Nil
  then show ?case
    by (simp add: fresh_def AverageSubscriber_new_def outputs_def run_avg_Nil)
next
  case (snoc x xs)
  from snoc.prems(1) obtain ps' pw where ps: "ps = ps' @ [pw]" and len: "length ps' = length xs"
    by (cases ps rule: rev_cases) auto
  have pre: "\<forall>i<length xs. p t (xs ! i) i = Inr (fst (ps' ! i)) \<and> q t (xs ! i) i = Inr (snd (ps' ! i))"
  proof (intro allI impI)
    fix i assume i: "i < length xs"
    with snoc.prems(2) have "p t ((xs @ [x]) ! i) i = Inr (fst (ps ! i)) \<and> q t ((xs @ [x]) ! i) i = Inr (snd (ps ! i))"
      by simp
    with i len show "p t (xs ! i) i = Inr (fst (ps' ! i)) \<and> q t (xs ! i) i = Inr (snd (ps' ! i))"
      by (simp add: ps nth_append)
  qed
  have "p t ((xs @ [x]) ! length xs) (length xs) = Inr (fst (ps ! length xs))
      \<and> q t ((xs @ [x]) ! length xs) (length xs) = Inr (snd (ps ! length xs))"
    using snoc.prems(2) [rule_format, of "length xs"] by simp
  with len have last: "p t x (length xs) = Inr (fst pw)" "q t x (length xs) = Inr (snd pw)"
    by (simp_all add: ps nth_append)
  have sa: "step_avg (fst (run_avg ps'), snd (run_avg ps')) (fst pw, snd pw) = run_avg ps"
    by (simp add: ps run_avg_snoc)
  show ?case
    by (simp add: subscribe_append snoc.IH [OF len pre] next_ok [of p t x "length xs" "fst pw" q "snd pw", OF last] sa)
       (simp add: ps outputs_snoc len run_avg_snoc step_avg_def)
qed





lemma fresh_True: "fresh p q t True = AverageSubscriber_new (Some p) (Some q) t"
  by (simp add: fresh_def AverageSubscriber_new_def)

lemma average_both:
  "average (Some p) (Some q) t source = subscribe source (fresh p q t True)"
  by (simp add: average_def averageOperation_def is_function_def lift_def fresh_True)



lemma average_defaults:
  "average None None t source = subscribe source (fresh identity one_w t True)"
  by (simp add: average_def averageOperation_def is_function_def lift_def fresh_True)





lemma next_frame:
  "project (AverageSubscriber_next x s) = project s
   \<and> projectWeight (AverageSubscriber_next x s) = projectWeight s
   \<and> thisArg (AverageSubscriber_next x s) = thisArg s
   \<and> isRunning (AverageSubscriber_next x s) = isRunning s"
  by (simp add: AverageSubscriber_next_def invoke_def destination_error_def destination_next_def
      Let_def split: option.splits sum.splits)

lemma deliver_frame:
  "project (deliver e s) = project s \<and> projectWeight (deliver e s) = projectWeight s
   \<and> thisArg (deliver e s) = thisArg s \<and> isRunning (deliver e s) = isRunning s"
  by (cases e)
     (simp_all add: Subscriber_next_def next_frame Subscriber_error_def Subscriber_complete_def
        Subscriber_unsubscribe_def AverageSubscriber_complete_def destination_error_def
        destination_complete_def destination_next_def)

lemma subscribe_frame:
  "project (subscribe es s) = project s \<and> projectWeight (subscribe es s) = projectWeight s
   \<and> thisArg (subscribe es s) = thisArg s \<and> isRunning (subscribe es s) = isRunning s"
  by (induction es arbitrary: s) (simp_all add: deliver_frame)

lemma next_fail:
  assumes "p t x n = Inl e \<or> (\<exists>v. p t x n = Inr v \<and> q t x n = Inl e)"
  shows "Subscriber_next x
           \<lparr>status = ACTIVE, destination = d, sourceSubscribed = True,
            count = n, value = a, sumWeights = S, thisArg = t, isRunning = r,
            project = Some p, projectWeight = Some q, invoked = k\<rparr>
         = \<lparr>status = ERRORED, destination = d @ [Error e], sourceSubscribed = False,
            count = n, value = a, sumWeights = S, thisArg = t, isRunning = r,
            project = Some p, projectWeight = Some q,
            invoked = (if isl (p t x n) then Suc k else Suc (Suc k))\<rparr>"
  using assms
  by (auto simp: Subscriber_next_def AverageSubscriber_next_def invoke_def destination_error_def)

section \<open>Claims\<close>





text \<open>
  C3. The defaults are chosen in \<^verbatim>\<open>averageOperation\<close>, by three cases: with neither
  projection supplied the operator is built with \<open>identity\<close> (the item if it is a
  number, else 0) and the constant 1; with only a value projection, with that
  projection and the constant 1; with both, with both as given. The subscriber holds
  the projections so chosen after any sequence of events: nothing is chosen again
  while items are processed.
\<close>

theorem defaulting_is_resolved_once:
  fixes p q :: "('a, 'c, 'x) projection"
  shows "average None None t source = call (AverageOperator (Some identity) (Some one_w) t) source
       \<and> average (Some p) None t source = call (AverageOperator (Some p) (Some one_w) t) source
       \<and> average (Some p) (Some q) t source = call (AverageOperator (Some p) (Some q) t) source
       \<and> project (average None None t source :: ('a, 'c, 'x) AverageSubscriber) = Some identity
       \<and> projectWeight (average None None t source :: ('a, 'c, 'x) AverageSubscriber) = Some one_w
       \<and> project (average (Some p) None t source) = Some p
       \<and> projectWeight (average (Some p) None t source) = Some one_w
       \<and> project (average (Some p) (Some q) t source) = Some p
       \<and> projectWeight (average (Some p) (Some q) t source) = Some q
       \<and> (identity :: ('a, 'c, 'x) projection) t (JNumber r) i = Inr r
       \<and> (identity :: ('a, 'c, 'x) projection) t (JOther a) i = Inr 0
       \<and> (one_w :: ('a, 'c, 'x) projection) t x i = Inr 1"
  by (simp add: average_def averageOperation_def is_function_def lift_def subscribe_frame
      AverageSubscriber_new_def identity_def one_w_def)

text \<open>
  C4. Let both projections succeed on the first \<open>k - 1\<close> items \<open>xs\<close> and let one of
  them throw \<open>e\<close> on the \<open>k\<close>-th item \<open>x\<close> (the value projection, or the weight
  projection after the value projection returned). Whatever the source does after
  \<open>x\<close>, the destination has received exactly the \<open>k - 1\<close> running averages followed by
  the error \<open>e\<close> as a notification, and no value for \<open>x\<close>; the subscription is in its
  error state; the count is \<open>k - 1\<close> and no projection was called after the one that
  threw; the result is the same as if the source had stopped at \<open>x\<close>.
\<close>

theorem projection_error_is_signalled:
  fixes p q :: "('a, 'c, 'x) projection"
  assumes "length ps = length xs"
    and "\<forall>i<length xs. p t (xs ! i) i = Inr (fst (ps ! i)) \<and> q t (xs ! i) i = Inr (snd (ps ! i))"
    and "p t x (length xs) = Inl e \<or> (\<exists>v. p t x (length xs) = Inr v \<and> q t x (length xs) = Inl e)"
  shows "destination (average (Some p) (Some q) t (map OnNext xs @ OnNext x # rest))
           = map (\<lambda>k. Next (snd (run_avg (take k ps)))) [1..<Suc (length xs)] @ [Error e]
       \<and> length (destination (average (Some p) (Some q) t (map OnNext xs @ OnNext x # rest)))
           = Suc (length xs)
       \<and> status (average (Some p) (Some q) t (map OnNext xs @ OnNext x # rest)) = ERRORED
       \<and> count (average (Some p) (Some q) t (map OnNext xs @ OnNext x # rest)) = length xs
       \<and> invoked (average (Some p) (Some q) t (map OnNext xs @ OnNext x # rest))
           = 2 * length xs + (if isl (p t x (length xs)) then 1 else 2)
       \<and> average (Some p) (Some q) t (map OnNext xs @ OnNext x # rest)
           = average (Some p) (Some q) t (map OnNext xs @ [OnNext x])"
proof -
  note items = process_items [where p = p and q = q and t = t and r = True, OF assms(1,2)]
  note fail = next_fail [where p = p and q = q, OF assms(3)]
  have step: "subscribe (map OnNext xs @ [OnNext x]) (fresh p q t True)
      = \<lparr>status = ERRORED, destination = outputs True ps @ [Error e], sourceSubscribed = False,
         count = length xs, value = snd (run_avg ps), sumWeights = fst (run_avg ps),
         thisArg = t, isRunning = True, project = Some p, projectWeight = Some q,
         invoked = (if isl (p t x (length xs)) then Suc (2 * length xs) else Suc (Suc (2 * length xs)))\<rparr>"
    by (simp add: subscribe_append items fail)
  have "subscribe (map OnNext xs @ OnNext x # rest) (fresh p q t True)
      = subscribe rest (subscribe (map OnNext xs @ [OnNext x]) (fresh p q t True))"
    using subscribe_append [of "map OnNext xs @ [OnNext x]" rest] by simp
  also have "\<dots> = subscribe (map OnNext xs @ [OnNext x]) (fresh p q t True)"
    by (rule subscribe_inactive) (simp add: step)
  finally have all: "subscribe (map OnNext xs @ OnNext x # rest) (fresh p q t True)
      = subscribe (map OnNext xs @ [OnNext x]) (fresh p q t True)" .
  show ?thesis
    using assms(1) by (simp add: average_both all step outputs_def del: upt_Suc)
qed

theorem projection_error_is_signalled_witness:
  "destination (average (Some (\<lambda>t x i. case x of JNumber r \<Rightarrow> Inr r | JOther u \<Rightarrow> Inl (Thrown u)))
       (Some one_w) None
       (map OnNext [JNumber 1] @ OnNext (JOther ''too bad'') # [OnNext (JNumber 3), OnComplete])
       :: (string, unit, string) AverageSubscriber)
     = [Next (Num 1), Error (Thrown ''too bad'')]"
proof -
  let ?p = "(\<lambda>t x i. case x of JNumber r \<Rightarrow> Inr r | JOther u \<Rightarrow> Inl (Thrown u))
              :: (string, unit, string) projection"
  let ?q = "one_w :: (string, unit, string) projection"
  let ?xs = "[JNumber 1] :: string jsval list"
  let ?ps = "[(1, 1)] :: (real \<times> real) list"
  have h1: "length ?ps = length ?xs" by simp
  have h2: "\<forall>i<length ?xs. ?p None (?xs ! i) i = Inr (fst (?ps ! i))
      \<and> ?q None (?xs ! i) i = Inr (snd (?ps ! i))"
    by (simp add: one_w_def)
  have h3: "?p None (JOther ''too bad'') (length ?xs) = Inl (Thrown ''too bad'')
      \<or> (\<exists>v. ?p None (JOther ''too bad'') (length ?xs) = Inr v
            \<and> ?q None (JOther ''too bad'') (length ?xs) = Inl (Thrown ''too bad''))"
    by simp
  show ?thesis
    using projection_error_is_signalled [of ?ps ?xs ?p None ?q "JOther ''too bad''"
        "Thrown ''too bad''" "[OnNext (JNumber 3), OnComplete]", OF h1 h2 h3, THEN conjunct1]
    by (simp add: run_avg_def step_avg_def js_div_def)
qed






text \<open>
  C7. When the source signals an error \<open>err\<close> to a subscriber that is still active,
  the destination receives \<open>err\<close> itself, after everything it had received before and
  with no value in between, and the subscription is in its error state. Whatever the
  source does afterwards, the destination receives nothing more (no completion) and
  no item is processed. The method \<^verbatim>\<open>error\<close> is inherited from the absent base
  class: \<open>Subscriber_error\<close> is modelled from the specification.
\<close>

theorem upstream_error_is_forwarded:
  assumes "status s = ACTIVE"
  shows "destination (subscribe (OnError err # rest) s) = destination s @ [Error err]
       \<and> status (subscribe (OnError err # rest) s) = ERRORED
       \<and> count (subscribe (OnError err # rest) s) = count s
       \<and> value (subscribe (OnError err # rest) s) = value s
       \<and> invoked (subscribe (OnError err # rest) s) = invoked s"
proof -
  have "status (Subscriber_error err s) \<noteq> ACTIVE"
    using assms by (simp add: Subscriber_error_def destination_error_def)
  then have "subscribe (OnError err # rest) s = Subscriber_error err s"
    by (simp add: subscribe_inactive)
  with assms show ?thesis
    by (simp add: Subscriber_error_def destination_error_def)
qed

theorem upstream_error_is_forwarded_witness:
  "destination (average None None None
       [OnNext (JNumber 1), OnNext (JNumber 2), OnError (Thrown ''too bad''), OnComplete]
       :: (unit, unit, string) AverageSubscriber)
     = [Next (Num 1), Next (Num (3 / 2)), Error (Thrown ''too bad'')]"
proof -
  let ?s = "subscribe [OnNext (JNumber 1), OnNext (JNumber 2)]
              (fresh identity one_w None True :: (unit, unit, string) AverageSubscriber)"
  have s: "?s = \<lparr>status = ACTIVE, destination = [Next (Num 1), Next (Num (3 / 2))],
      sourceSubscribed = True, count = 2, value = Num (3 / 2), sumWeights = 2, thisArg = None,
      isRunning = True, project = Some identity, projectWeight = Some one_w, invoked = 4\<rparr>"
    by (simp add: fresh_def AverageSubscriber_new_def Subscriber_next_def
        AverageSubscriber_next_def invoke_def identity_def one_w_def destination_next_def
        js_div_def Let_def)
  have h: "status ?s = ACTIVE"
    unfolding s by simp
  have eq: "average None None None
       [OnNext (JNumber 1), OnNext (JNumber 2), OnError (Thrown ''too bad''), OnComplete]
     = subscribe (OnError (Thrown ''too bad'') # [OnComplete]) ?s"
    by (simp add: average_defaults)
  have "destination (subscribe (OnError (Thrown ''too bad'') # [OnComplete]) ?s)
      = destination ?s @ [Error (Thrown ''too bad'')]"
    using upstream_error_is_forwarded [OF h, of "Thrown ''too bad''" "[OnComplete]"] by blast
  then show ?thesis
    unfolding eq s by simp
qed

text \<open>
  C8. In running mode, when the source completes a subscriber that is still active,
  \<^verbatim>\<open>_complete\<close> hands no value downstream: the destination receives the completion
  right after what it had received before. Whatever the source does afterwards, the
  destination receives nothing more (the completion is forwarded once) and no item is
  processed: the count, the average and the number of projection calls stay as they
  were.
\<close>

theorem running_completion_is_forwarded_once:
  assumes "status s = ACTIVE" and "isRunning s"
  shows "destination (subscribe (OnComplete # rest) s) = destination s @ [Complete]
       \<and> status (subscribe (OnComplete # rest) s) = COMPLETED
       \<and> count (subscribe (OnComplete # rest) s) = count s
       \<and> value (subscribe (OnComplete # rest) s) = value s
       \<and> invoked (subscribe (OnComplete # rest) s) = invoked s"
proof -
  have "status (Subscriber_complete s) \<noteq> ACTIVE"
    using assms
    by (simp add: Subscriber_complete_def AverageSubscriber_complete_def destination_complete_def)
  then have "subscribe (OnComplete # rest) s = Subscriber_complete s"
    by (simp add: subscribe_inactive)
  with assms show ?thesis
    by (simp add: Subscriber_complete_def AverageSubscriber_complete_def destination_complete_def)
qed

theorem running_completion_is_forwarded_once_witness:
  "destination (average None None None
       [OnNext (JNumber 42), OnComplete, OnNext (JNumber 7), OnComplete]
       :: (unit, unit, unit) AverageSubscriber)
     = [Next (Num 42), Complete]"
proof -
  let ?s = "subscribe [OnNext (JNumber 42)]
              (fresh identity one_w None True :: (unit, unit, unit) AverageSubscriber)"
  have s: "?s = \<lparr>status = ACTIVE, destination = [Next (Num 42)],
      sourceSubscribed = True, count = 1, value = Num 42, sumWeights = 1, thisArg = None,
      isRunning = True, project = Some identity, projectWeight = Some one_w, invoked = 2\<rparr>"
    by (simp add: fresh_def AverageSubscriber_new_def Subscriber_next_def
        AverageSubscriber_next_def invoke_def identity_def one_w_def destination_next_def
        js_div_def Let_def)
  have h: "status ?s = ACTIVE" "isRunning ?s"
    unfolding s by simp_all
  have eq: "average None None None [OnNext (JNumber 42), OnComplete, OnNext (JNumber 7), OnComplete]
     = subscribe (OnComplete # [OnNext (JNumber 7), OnComplete]) ?s"
    by (simp add: average_defaults)
  have "destination (subscribe (OnComplete # [OnNext (JNumber 7), OnComplete]) ?s)
      = destination ?s @ [Complete]"
    using running_completion_is_forwarded_once [OF h, of "[OnNext (JNumber 7), OnComplete]"]
    by blast
  then show ?thesis
    unfolding eq s by simp
qed

text \<open>
  C9. When the downstream consumer unsubscribes from a subscriber that is still
  active, then whatever the source does afterwards no projection is called, the
  destination receives nothing more, no item is counted, and the subscription to the
  source is released. The method \<^verbatim>\<open>unsubscribe\<close> is inherited from the absent base
  class: \<open>Subscriber_unsubscribe\<close> is modelled from the specification.
\<close>

theorem unsubscribe_stops_processing:
  assumes "status s = ACTIVE"
  shows "invoked (subscribe (Unsubscribe # rest) s) = invoked s
       \<and> destination (subscribe (Unsubscribe # rest) s) = destination s
       \<and> count (subscribe (Unsubscribe # rest) s) = count s
       \<and> status (subscribe (Unsubscribe # rest) s) = CANCELLED
       \<and> \<not> sourceSubscribed (subscribe (Unsubscribe # rest) s)"
proof -
  have "status (Subscriber_unsubscribe s) \<noteq> ACTIVE"
    using assms by (simp add: Subscriber_unsubscribe_def)
  then have "subscribe (Unsubscribe # rest) s = Subscriber_unsubscribe s"
    by (simp add: subscribe_inactive)
  with assms show ?thesis
    by (simp add: Subscriber_unsubscribe_def)
qed

theorem unsubscribe_stops_processing_witness:
  "destination (average None None None
       [OnNext (JNumber 1), OnNext (JNumber 2), Unsubscribe, OnNext (JNumber 3), OnComplete]
       :: (unit, unit, unit) AverageSubscriber)
     = [Next (Num 1), Next (Num (3 / 2))]
   \<and> invoked (average None None None
       [OnNext (JNumber 1), OnNext (JNumber 2), Unsubscribe, OnNext (JNumber 3), OnComplete]
       :: (unit, unit, unit) AverageSubscriber) = 4"
proof -
  let ?s = "subscribe [OnNext (JNumber 1), OnNext (JNumber 2)]
              (fresh identity one_w None True :: (unit, unit, unit) AverageSubscriber)"
  have s: "?s = \<lparr>status = ACTIVE, destination = [Next (Num 1), Next (Num (3 / 2))],
      sourceSubscribed = True, count = 2, value = Num (3 / 2), sumWeights = 2, thisArg = None,
      isRunning = True, project = Some identity, projectWeight = Some one_w, invoked = 4\<rparr>"
    by (simp add: fresh_def AverageSubscriber_new_def Subscriber_next_def
        AverageSubscriber_next_def invoke_def identity_def one_w_def destination_next_def
        js_div_def Let_def)
  have h: "status ?s = ACTIVE"
    unfolding s by simp
  have eq: "average None None None
       [OnNext (JNumber 1), OnNext (JNumber 2), Unsubscribe, OnNext (JNumber 3), OnComplete]
     = subscribe (Unsubscribe # [OnNext (JNumber 3), OnComplete]) ?s"
    by (simp add: average_defaults)
  have "destination (subscribe (Unsubscribe # [OnNext (JNumber 3), OnComplete]) ?s)
      = destination ?s
    \<and> invoked (subscribe (Unsubscribe # [OnNext (JNumber 3), OnComplete]) ?s) = invoked ?s"
    using unsubscribe_stops_processing [OF h, of "[OnNext (JNumber 3), OnComplete]"] by blast
  then show ?thesis
    unfolding eq s by simp
qed



end
